theory Spec2Isabelle
  imports Main "HOL-Library.Multiset"
begin

section \<open>Callers, permission classes, responses\<close>

text \<open>
  The views of \<^verbatim>\<open>restful/views.py\<close> see the caller as \<^verbatim>\<open>request.user\<close>: an
  instance of \<^verbatim>\<open>AnonymousUser\<close>, or a \<^verbatim>\<open>User\<close> row with its primary key and its
  staff flag.
\<close>

datatype request_user = AnonymousUser | User nat bool

fun is_authenticated :: "request_user \<Rightarrow> bool" where
  "is_authenticated AnonymousUser = False"
| "is_authenticated (User uid staff) = True"

fun is_staff :: "request_user \<Rightarrow> bool" where
  "is_staff AnonymousUser = False"
| "is_staff (User uid staff) = staff"

text \<open>
  Python's truth value of \<^verbatim>\<open>request.user\<close>: neither class defines \<^verbatim>\<open>__bool__\<close> or
  \<^verbatim>\<open>__len__\<close>, so every instance is true.
\<close>

fun truthy :: "request_user \<Rightarrow> bool" where
  "truthy AnonymousUser = True"
| "truthy (User uid staff) = True"

text \<open>The primary key a queryset filter \<^verbatim>\<open>user=request.user\<close> compares with.\<close>

fun user_pk :: "request_user \<Rightarrow> nat option" where
  "user_pk AnonymousUser = None"
| "user_pk (User uid staff) = Some uid"

datatype permission = AllowAny | IsAuthenticated | IsAdminUser | IsOwner

text \<open>
  Modelled from the spec: the permission class \<^verbatim>\<open>IsOwner\<close> of
  \<^verbatim>\<open>restful/permissions.py\<close>, which is not among the sources. The spec calls it
  owner-level authorization, "authenticated, acting on own records", and owner-only
  "permitted only when the acting identity equals the resource's associated user": the
  request-level check asks for an authenticated caller, the object-level check for the
  caller to be the record's user (given by primary key).
\<close>

definition IsOwner_has_permission :: "request_user \<Rightarrow> bool" where
  "IsOwner_has_permission u = is_authenticated u"

definition IsOwner_has_object_permission :: "request_user \<Rightarrow> nat \<Rightarrow> bool" where
  "IsOwner_has_object_permission u owner = (user_pk u = Some owner)"

text \<open>
  \<^verbatim>\<open>has_permission\<close> of the framework's classes: \<^verbatim>\<open>AllowAny\<close> returns True,
  \<^verbatim>\<open>IsAuthenticated\<close> returns \<^verbatim>\<open>bool(request.user and request.user.is_authenticated)\<close>,
  \<^verbatim>\<open>IsAdminUser\<close> returns \<^verbatim>\<open>bool(request.user and request.user.is_staff)\<close>.
\<close>

fun has_permission :: "permission \<Rightarrow> request_user \<Rightarrow> bool" where
  "has_permission AllowAny u = True"
| "has_permission IsAuthenticated u = (truthy u \<and> is_authenticated u)"
| "has_permission IsAdminUser u = (truthy u \<and> is_staff u)"
| "has_permission IsOwner u = IsOwner_has_permission u"

text \<open>
  \<^verbatim>\<open>has_object_permission\<close>, given the primary key of the record's user. The
  framework's classes keep the default, True.
\<close>

fun has_object_permission :: "permission \<Rightarrow> request_user \<Rightarrow> nat \<Rightarrow> bool" where
  "has_object_permission IsOwner u owner = IsOwner_has_object_permission u owner"
| "has_object_permission p u owner = True"

text \<open>
  \<^verbatim>\<open>check_permissions\<close> and \<^verbatim>\<open>check_object_permissions\<close> of the framework's view:
  every permission of the list must agree.
\<close>

definition check_permissions :: "permission list \<Rightarrow> request_user \<Rightarrow> bool" where
  "check_permissions ps u = list_all (\<lambda>p. has_permission p u) ps"

definition check_object_permissions :: "permission list \<Rightarrow> request_user \<Rightarrow> nat \<Rightarrow> bool" where
  "check_object_permissions ps u owner = list_all (\<lambda>p. has_object_permission p u owner) ps"

text \<open>Response bodies are JSON values; a \<^verbatim>\<open>Response\<close> is a body and a status code.\<close>

datatype json = JNull | JInt int | JStr string | JList "json list" | JDict "(string \<times> json) list"

datatype response = Response json nat

definition HTTP_200_OK :: nat where "HTTP_200_OK = 200"
definition HTTP_201_CREATED :: nat where "HTTP_201_CREATED = 201"
definition HTTP_400_BAD_REQUEST :: nat where "HTTP_400_BAD_REQUEST = 400"
definition HTTP_401_UNAUTHORIZED :: nat where "HTTP_401_UNAUTHORIZED = 401"

text \<open>
  An exception is an instance of \<^verbatim>\<open>django.db.IntegrityError\<close> or of some other
  class. The storage layer raises \<^verbatim>\<open>IntegrityError\<close> for every constraint a write
  violates, a unique one or another; the instance carries the storage layer's text.
\<close>

datatype violation = Unique | NotNull | ForeignKey | Check

datatype exc = IntegrityError violation string | OtherException string

fun isinstance_IntegrityError :: "exc \<Rightarrow> bool" where
  "isinstance_IntegrityError (IntegrityError v m) = True"
| "isinstance_IntegrityError (OtherException m) = False"

section \<open>Access policies\<close>

text \<open>
  \<^verbatim>\<open>BookingViewSet.get_permissions\<close>: an \<^verbatim>\<open>if/elif/else\<close> chain on the action, then
  one instance of each class.
\<close>

definition booking_get_permissions :: "string \<Rightarrow> permission list" where
  "booking_get_permissions action =
     (let permission_classes =
        (if action = ''list'' then [IsAdminUser]
         else if action = ''create'' then [IsAuthenticated]
         else [IsOwner])
      in map (\<lambda>permission. permission) permission_classes)"

text \<open>
  \<^verbatim>\<open>RatingViewSet.get_permissions\<close>: two statements in sequence. The first \<^verbatim>\<open>if\<close>
  has no \<^verbatim>\<open>else\<close> and may leave the local name unbound (None here); the second
  \<^verbatim>\<open>if/else\<close> assigns the name on both branches.
\<close>

definition rating_get_permissions :: "string \<Rightarrow> permission list" where
  "rating_get_permissions action =
     (let permission_classes =
        (if action = ''create'' then Some [IsAuthenticated] else None);
          permission_classes =
        (if action = ''list'' then [IsAdminUser] else [IsOwner])
      in map (\<lambda>permission. permission) permission_classes)"

section \<open>Conflict translation\<close>

text \<open>
  \<^verbatim>\<open>handle_exception\<close> of the two view sets. The handler of the parent class is a
  parameter: it answers with a response or raises the exception again (\<open>Inl\<close>).
\<close>

definition booking_handle_exception :: "(exc \<Rightarrow> exc + response) \<Rightarrow> exc \<Rightarrow> exc + response" where
  "booking_handle_exception super_handle_exception e =
     (if isinstance_IntegrityError e then
        (let error = ''You have already booked this pool.'' @ ''Request an update if required'';
             error = JDict [(''Integrity error'', JStr error)]
         in Inr (Response error HTTP_400_BAD_REQUEST))
      else super_handle_exception e)"

definition rating_handle_exception :: "(exc \<Rightarrow> exc + response) \<Rightarrow> exc \<Rightarrow> exc + response" where
  "rating_handle_exception super_handle_exception e =
     (if isinstance_IntegrityError e then
        (let error = ''Already rated! request update to make changes'';
             error = JDict [(''Integrity Error'', JStr error)]
         in Inr (Response error HTTP_400_BAD_REQUEST))
      else super_handle_exception e)"

section \<open>Tables and querysets\<close>

text \<open>
  The rows of the four tables, with the fields the views read. Users and pools are referred
  to by primary key; times are integers (a timestamp).
\<close>

record pool =
  pool_id :: nat
  pool_slug :: string
  pool_created_at :: int

record booking =
  booking_slug :: string
  booking_user :: nat
  booking_pool :: nat
  booking_created_at :: int

record rating =
  rating_slug :: string
  rating_user :: nat
  rating_pool :: nat
  rating_value :: int
  rating_created_at :: int

record file_upload =
  upload_file :: string
  uploaded_at :: int

text \<open>
  \<^verbatim>\<open>order_by('-field')\<close>: the rows by descending field. Among rows with equal
  field the database is free; the model keeps their table order, and no theorem below
  depends on that choice.
\<close>

definition order_by_desc :: "('a \<Rightarrow> int) \<Rightarrow> 'a list \<Rightarrow> 'a list" where
  "order_by_desc field rows = sort_key (\<lambda>r. - field r) rows"

text \<open>\<^verbatim>\<open>filter(user=request.user)\<close>: the rows whose user is the caller.\<close>

definition filter_user :: "('a \<Rightarrow> nat) \<Rightarrow> request_user \<Rightarrow> 'a list \<Rightarrow> 'a list" where
  "filter_user user_of u rows = filter (\<lambda>r. user_pk u = Some (user_of r)) rows"

text \<open>
  The querysets of the view sets. \<^verbatim>\<open>PoolViewSet.get_queryset\<close> annotates every pool
  with \<^verbatim>\<open>_average_value\<close>, the \<^verbatim>\<open>Avg\<close> of \<^verbatim>\<open>rating__value\<close>: the aggregate of
  the database over the values of the ratings whose pool is this pool. The aggregate (a
  floating-point number, or NULL) is computed by the database and is a parameter here.
\<close>

definition pool_get_queryset ::
  "(int list \<Rightarrow> 'avg) \<Rightarrow> pool list \<Rightarrow> rating list \<Rightarrow> (pool \<times> 'avg) list" where
  "pool_get_queryset Avg Pool_objects Rating_objects =
     order_by_desc (\<lambda>(p, a). pool_created_at p)
       (map (\<lambda>p. (p, Avg (map rating_value
                             (filter (\<lambda>r. rating_pool r = pool_id p) Rating_objects))))
            Pool_objects)"

definition booking_queryset :: "booking list \<Rightarrow> booking list" where
  "booking_queryset Booking_objects = order_by_desc booking_created_at Booking_objects"

definition rating_queryset :: "rating list \<Rightarrow> rating list" where
  "rating_queryset Rating_objects = order_by_desc rating_created_at Rating_objects"

definition file_upload_queryset :: "file_upload list \<Rightarrow> file_upload list" where
  "file_upload_queryset FileUpload_objects = order_by_desc uploaded_at FileUpload_objects"

section \<open>Owner-scoped listings\<close>

text \<open>
  \<^verbatim>\<open>self.paginate_queryset\<close> is a parameter of the handlers: it returns None when no
  page is asked for, or the rows of the page; the paginator keeps the total count and the
  links of that page, which \<^verbatim>\<open>get_paginated_response\<close> reads back. A paginator that
  rejects the page number raises before the handler's branches and is not part of the
  parameter. \<^verbatim>\<open>get_serializer(rows, many=True).data\<close> maps the serializer over the rows.
\<close>

record page_info =
  page_count :: nat
  page_next :: "string option"
  page_previous :: "string option"

type_synonym 'a paginate = "'a list \<Rightarrow> ('a list \<times> page_info) option"

fun link :: "string option \<Rightarrow> json" where
  "link None = JNull"
| "link (Some url) = JStr url"

definition get_paginated_response :: "page_info \<Rightarrow> json list \<Rightarrow> response" where
  "get_paginated_response info serializer_data =
     Response (JDict [(''count'', JInt (int (page_count info))),
                      (''next'', link (page_next info)),
                      (''previous'', link (page_previous info)),
                      (''results'', JList serializer_data)])
              HTTP_200_OK"

definition recent_bookings ::
  "booking paginate \<Rightarrow> (booking \<Rightarrow> json) \<Rightarrow> request_user \<Rightarrow> booking list \<Rightarrow> response" where
  "recent_bookings paginate_queryset serializer user Booking_objects =
     (if user = AnonymousUser then
        Response (JDict [(''detail'', JStr ''User not known'')]) HTTP_401_UNAUTHORIZED
      else
        (let recent_bookings =
               order_by_desc booking_created_at (filter_user booking_user user Booking_objects)
         in case paginate_queryset recent_bookings of
              Some (page, info) \<Rightarrow> get_paginated_response info (map serializer page)
            | None \<Rightarrow> Response (JList (map serializer recent_bookings)) HTTP_200_OK))"

definition user_ratings ::
  "rating paginate \<Rightarrow> (rating \<Rightarrow> json) \<Rightarrow> request_user \<Rightarrow> rating list \<Rightarrow> response" where
  "user_ratings paginate_queryset serializer user Rating_objects =
     (if \<not> truthy user \<or> user = AnonymousUser then
        Response (JDict [(''detail'', JStr ''User not known'')]) HTTP_401_UNAUTHORIZED
      else
        (let user_ratings =
               order_by_desc rating_created_at (filter_user rating_user user Rating_objects)
         in case paginate_queryset user_ratings of
              Some (page, info) \<Rightarrow> Response (JList (map serializer page)) HTTP_200_OK
            | None \<Rightarrow> Response (JList (map serializer user_ratings)) HTTP_200_OK))"

text \<open>
  A paginator for the examples: the first page of a page-number pagination with one row
  to the page.
\<close>

definition first_page_of_one :: "'a paginate" where
  "first_page_of_one rows =
     Some (take 1 rows,
           \<lparr>page_count = length rows,
            page_next = (if 1 < length rows then Some ''?page=2'' else None),
            page_previous = None\<rparr>)"

section \<open>Creation\<close>

text \<open>
  What the views hand to \<^verbatim>\<open>serializer.save(**kwargs)\<close>. The framework merges the
  keyword arguments over the validated data (\<^verbatim>\<open>{**self.validated_data, **kwargs}\<close>)
  and passes the result to the serializer's \<^verbatim>\<open>create\<close>; \<open>save\<close> is that merged
  dictionary. The serializers and the models, which validate the payload and make the
  stored row from the dictionary, are not among the sources and are not modelled.
\<close>

datatype field_value = FUser request_user | FInt int | FStr string

type_synonym attrs = "string \<rightharpoonup> field_value"

definition save :: "attrs \<Rightarrow> attrs \<Rightarrow> attrs" where
  "save validated_data kwargs = validated_data ++ kwargs"

text \<open>\<^verbatim>\<open>RatingViewSet.perform_create\<close>: \<^verbatim>\<open>serializer.save(user=self.request.user)\<close>.\<close>

definition rating_perform_create :: "request_user \<Rightarrow> attrs \<Rightarrow> attrs" where
  "rating_perform_create user validated_data = save validated_data [''user'' \<mapsto> FUser user]"

text \<open>
  \<^verbatim>\<open>BookingViewSet\<close> defines \<^verbatim>\<open>perform_update\<close> only. Its \<^verbatim>\<open>perform_create\<close> is the
  one it inherits from the framework's \<^verbatim>\<open>ModelViewSet\<close>: \<^verbatim>\<open>serializer.save()\<close>, with
  no keyword argument.
\<close>

definition booking_perform_create :: "request_user \<Rightarrow> attrs \<Rightarrow> attrs" where
  "booking_perform_create user validated_data = save validated_data Map.empty"

section \<open>Registration\<close>

text \<open>
  A request carries the credentials sent with it (the authorization header, if any) and
  its parsed body. The framework's \<^verbatim>\<open>dispatch\<close> authenticates with the view's
  \<^verbatim>\<open>authentication_classes\<close> in order (the first authenticator that answers decides;
  one that rejects the credentials raises; with none left the caller is an
  \<^verbatim>\<open>AnonymousUser\<close>), checks the view's permissions, runs the handler, and hands every
  exception to \<^verbatim>\<open>handle_exception\<close>. The state of the repository (with the clock and the
  randomness of the token issuer) is \<open>db\<close>. A handler returns the state it leaves
  together with its response or the exception it raises: what it wrote before a failure
  stays written unless the handler itself undoes it.
\<close>

record request =
  credentials :: "string option"
  data :: json

datatype auth_result = NotAttempted | Authenticated request_user | AuthenticationFailed

fun perform_authentication ::
  "(string option \<Rightarrow> auth_result) list \<Rightarrow> string option \<Rightarrow> exc + request_user" where
  "perform_authentication [] c = Inr AnonymousUser"
| "perform_authentication (authenticator # rest) c =
     (case authenticator c of
        NotAttempted \<Rightarrow> perform_authentication rest c
      | Authenticated user \<Rightarrow> Inr user
      | AuthenticationFailed \<Rightarrow> Inl (OtherException ''AuthenticationFailed''))"

definition dispatch ::
  "(string option \<Rightarrow> auth_result) list \<Rightarrow> permission list \<Rightarrow> (exc \<Rightarrow> exc + response)
   \<Rightarrow> ('db \<Rightarrow> request_user \<Rightarrow> json \<Rightarrow> 'db \<times> (exc + response))
   \<Rightarrow> 'db \<Rightarrow> request \<Rightarrow> 'db \<times> (exc + response)" where
  "dispatch authentication_classes permission_classes handle_exception handler db request =
     (case perform_authentication authentication_classes (credentials request) of
        Inl e \<Rightarrow> (db, handle_exception e)
      | Inr user \<Rightarrow>
          if check_permissions permission_classes user then
            (case handler db user (data request) of
               (db', Inl e) \<Rightarrow> (db', handle_exception e)
             | (db', Inr response) \<Rightarrow> (db', Inr response))
          else (db, handle_exception (OtherException ''PermissionDenied'')))"

text \<open>
  \<^verbatim>\<open>RegisterAPIView.create\<close>. The parent's \<^verbatim>\<open>create\<close> (validation by the user
  serializer and the insertion) and the token issuer (\<^verbatim>\<open>User.objects.get\<close> followed by
  \<^verbatim>\<open>RefreshToken.for_user\<close>, giving the texts of the refresh and the access token) are
  parameters; either may raise, and either returns the state it leaves. The method opens
  no transaction: when the token step raises, the user inserted by the first step stays.
\<close>

definition register_create ::
  "('db \<Rightarrow> request_user \<Rightarrow> json \<Rightarrow> 'db \<times> (exc + json))
   \<Rightarrow> ('db \<Rightarrow> json \<Rightarrow> 'db \<times> (exc + (string \<times> string)))
   \<Rightarrow> 'db \<Rightarrow> request_user \<Rightarrow> json \<Rightarrow> 'db \<times> (exc + response)" where
  "register_create super_create for_user db user request_data =
     (case super_create db user request_data of
        (db', Inl e) \<Rightarrow> (db', Inl e)
      | (db', Inr response_data) \<Rightarrow>
          (case for_user db' response_data of
             (db'', Inl e) \<Rightarrow> (db'', Inl e)
           | (db'', Inr (refresh, access)) \<Rightarrow>
               (db'', Inr (Response (JDict [(''status'', JInt (int HTTP_201_CREATED)),
                                            (''message'', JStr ''User registered successfully''),
                                            (''user'', response_data),
                                            (''refresh'', JStr refresh),
                                            (''access'', JStr access)])
                                    HTTP_201_CREATED))))"

text \<open>
  The registration endpoint: \<^verbatim>\<open>authentication_classes = []\<close> and
  \<^verbatim>\<open>permission_classes = [AllowAny]\<close>.
\<close>

definition register ::
  "('db \<Rightarrow> request_user \<Rightarrow> json \<Rightarrow> 'db \<times> (exc + json))
   \<Rightarrow> ('db \<Rightarrow> json \<Rightarrow> 'db \<times> (exc + (string \<times> string)))
   \<Rightarrow> (exc \<Rightarrow> exc + response) \<Rightarrow> 'db \<Rightarrow> request \<Rightarrow> 'db \<times> (exc + response)" where
  "register super_create for_user handle_exception db request =
     dispatch [] [AllowAny] handle_exception (register_create super_create for_user) db request"

section \<open>Example data\<close>

definition example_bookings :: "booking list" where
  "example_bookings =
     [\<lparr>booking_slug = ''a'', booking_user = 1, booking_pool = 1, booking_created_at = 10\<rparr>,
      \<lparr>booking_slug = ''b'', booking_user = 1, booking_pool = 2, booking_created_at = 20\<rparr>,
      \<lparr>booking_slug = ''c'', booking_user = 2, booking_pool = 2, booking_created_at = 30\<rparr>]"

definition example_ratings :: "rating list" where
  "example_ratings =
     [\<lparr>rating_slug = ''r'', rating_user = 1, rating_pool = 1, rating_value = 3,
       rating_created_at = 10\<rparr>,
      \<lparr>rating_slug = ''s'', rating_user = 1, rating_pool = 2, rating_value = 5,
       rating_created_at = 20\<rparr>,
      \<lparr>rating_slug = ''t'', rating_user = 2, rating_pool = 1, rating_value = 4,
       rating_created_at = 30\<rparr>]"

text \<open>Serializers for the examples: a row is shown as its slug.\<close>

definition booking_slug_json :: "booking \<Rightarrow> json" where
  "booking_slug_json b = JStr (booking_slug b)"

definition rating_slug_json :: "rating \<Rightarrow> json" where
  "rating_slug_json r = JStr (rating_slug r)"

text \<open>
  An authenticator that knows one valid token, a user serializer that accepts every
  object and numbers the users, and a token issuer with fixed texts.
\<close>

definition token_authentication :: "string \<Rightarrow> string option \<Rightarrow> auth_result" where
  "token_authentication valid c =
     (case c of
        None \<Rightarrow> NotAttempted
      | Some token \<Rightarrow> if token = valid then Authenticated (User 1 False) else AuthenticationFailed)"

definition example_super_create :: "nat \<Rightarrow> request_user \<Rightarrow> json \<Rightarrow> nat \<times> (exc + json)" where
  "example_super_create db user request_data =
     (case request_data of
        JDict entries \<Rightarrow> (Suc db, Inr (JDict ((''id'', JInt (int (Suc db))) # entries)))
      | _ \<Rightarrow> (db, Inl (OtherException ''ValidationError'')))"

definition example_for_user :: "nat \<Rightarrow> json \<Rightarrow> nat \<times> (exc + (string \<times> string))" where
  "example_for_user db response_data = (db, Inr (''refresh-token'', ''access-token''))"

section \<open>Properties of the access policies\<close>

text \<open>
  C1. In the Rating access policy, the action \<^verbatim>\<open>create\<close> gets the owner-only rule and
  not the authenticated-may-create rule: the result of the create check is overwritten by
  the list/else check that follows, so no action at all gets the authenticated rule.
\<close>

theorem rating_create_is_owner_only:
  "rating_get_permissions ''create'' = [IsOwner]
   \<and> rating_get_permissions ''create'' \<noteq> [IsAuthenticated]
   \<and> (\<forall>action. rating_get_permissions action \<noteq> [IsAuthenticated])
   \<and> (\<forall>action. rating_get_permissions action =
         (if action = ''list'' then [IsAdminUser] else [IsOwner]))"
  by (simp add: rating_get_permissions_def)

text \<open>
  C5. The Booking access policy: listing all bookings is granted to staff (admin)
  callers only, creating to every authenticated caller, and retrieve, update, partial
  update and delete to the caller who is the booking's user only; every other action
  falls under the owner rule too.
\<close>

theorem booking_access_policy:
  "booking_get_permissions ''list'' = [IsAdminUser]
   \<and> booking_get_permissions ''create'' = [IsAuthenticated]
   \<and> booking_get_permissions ''retrieve'' = [IsOwner]
   \<and> booking_get_permissions ''update'' = [IsOwner]
   \<and> booking_get_permissions ''partial_update'' = [IsOwner]
   \<and> booking_get_permissions ''destroy'' = [IsOwner]
   \<and> (\<forall>action. booking_get_permissions action =
         (if action = ''list'' then [IsAdminUser]
          else if action = ''create'' then [IsAuthenticated] else [IsOwner]))
   \<and> (\<forall>u. check_permissions (booking_get_permissions ''list'') u = is_staff u)
   \<and> (\<forall>u. check_permissions (booking_get_permissions ''create'') u = is_authenticated u)
   \<and> (\<forall>u owner.
         (check_permissions (booking_get_permissions ''retrieve'') u
          \<and> check_object_permissions (booking_get_permissions ''retrieve'') u owner)
         = (user_pk u = Some owner))
   \<and> (\<forall>u owner.
         (check_permissions (booking_get_permissions ''update'') u
          \<and> check_object_permissions (booking_get_permissions ''update'') u owner)
         = (user_pk u = Some owner))
   \<and> (\<forall>u owner.
         (check_permissions (booking_get_permissions ''partial_update'') u
          \<and> check_object_permissions (booking_get_permissions ''partial_update'') u owner)
         = (user_pk u = Some owner))
   \<and> (\<forall>u owner.
         (check_permissions (booking_get_permissions ''destroy'') u
          \<and> check_object_permissions (booking_get_permissions ''destroy'') u owner)
         = (user_pk u = Some owner))"
proof -
  have owner_rule: "(check_permissions [IsOwner] u \<and> check_object_permissions [IsOwner] u owner)
      = (user_pk u = Some owner)" for u owner
    by (cases u)
      (simp_all add: check_permissions_def check_object_permissions_def
        IsOwner_has_permission_def IsOwner_has_object_permission_def)
  have staff_rule: "check_permissions [IsAdminUser] u = is_staff u" for u
    by (cases u) (simp_all add: check_permissions_def)
  have auth_rule: "check_permissions [IsAuthenticated] u = is_authenticated u" for u
    by (cases u) (simp_all add: check_permissions_def)
  show ?thesis
    by (simp add: booking_get_permissions_def owner_rule staff_rule auth_rule)
qed

section \<open>Properties of the conflict translation\<close>

text \<open>
  C2. On an integrity violation raised by a Booking write the handler answers with status
  400 and a body with the one key \<^verbatim>\<open>Integrity error\<close>, never with the parent handler's
  answer or the storage layer's text. The message is the concatenation of two literals with
  nothing between them, so it reads \<^verbatim>\<open>...this pool.Request an update...\<close>: it is not the
  text with a space after the full stop.
\<close>

theorem booking_integrity_error_response:
  "booking_handle_exception super_handle_exception (IntegrityError v m) =
     Inr (Response (JDict [(''Integrity error'',
            JStr ''You have already booked this pool.Request an update if required'')])
          400)
   \<and> booking_handle_exception super_handle_exception (IntegrityError v m) \<noteq>
     Inr (Response (JDict [(''Integrity error'',
            JStr ''You have already booked this pool. Request an update if required'')])
          400)"
  by (simp add: booking_handle_exception_def HTTP_400_BAD_REQUEST_def)

text \<open>
  C7, as amended. On every integrity violation raised by a Rating write, of a unique
  constraint or of any other (the handler tests the class \<^verbatim>\<open>IntegrityError\<close> only), the
  handler answers with status 400 and the body
  \<^verbatim>\<open>{"Integrity Error": "Already rated! request update to make changes"}\<close>, whose key
  differs in case from the Booking body's key; every exception that is not an
  \<^verbatim>\<open>IntegrityError\<close> is handed, unchanged, to the parent class's handler, whose outcome is
  returned as it is.
\<close>

theorem rating_integrity_error_response:
  "rating_handle_exception super_handle_exception (IntegrityError v m) =
     Inr (Response (JDict [(''Integrity Error'',
            JStr ''Already rated! request update to make changes'')])
          400)
   \<and> rating_handle_exception super_handle_exception (IntegrityError v m) \<noteq>
       booking_handle_exception super_handle_exception (IntegrityError v m)
   \<and> (\<forall>m'. rating_handle_exception super_handle_exception (OtherException m') =
          super_handle_exception (OtherException m'))
   \<and> (\<forall>e. rating_handle_exception super_handle_exception e =
          (if isinstance_IntegrityError e
           then Inr (Response (JDict [(''Integrity Error'',
                       JStr ''Already rated! request update to make changes'')])
                     400)
           else super_handle_exception e))"
  by (simp add: rating_handle_exception_def booking_handle_exception_def
      HTTP_400_BAD_REQUEST_def)

text \<open>
  C7 as stated fails on a failure that is not a uniqueness violation: a Rating written
  without its value violates a NOT NULL constraint, and the handler answers 400 "Already
  rated!" instead of passing the exception on to the parent handler (which here raises
  every exception again).
\<close>

theorem rating_not_null_counterexample:
  "rating_handle_exception Inl
       (IntegrityError NotNull ''NOT NULL constraint failed: restful_rating.value'')
     = Inr (Response (JDict [(''Integrity Error'',
              JStr ''Already rated! request update to make changes'')])
            400)
   \<and> rating_handle_exception Inl
       (IntegrityError NotNull ''NOT NULL constraint failed: restful_rating.value'')
     \<noteq> Inl (IntegrityError NotNull ''NOT NULL constraint failed: restful_rating.value'')"
  by (simp add: rating_handle_exception_def HTTP_400_BAD_REQUEST_def)

section \<open>Properties of the querysets\<close>

lemma order_by_desc_sorted:
  "sorted_wrt (\<lambda>a b. field b \<le> field a) (order_by_desc field rows)"
proof -
  have "sorted (map (\<lambda>r. - field r) (order_by_desc field rows))"
    unfolding order_by_desc_def by (rule sorted_sort_key)
  then show ?thesis
    by (simp add: sorted_wrt_map)
qed

lemma order_by_desc_mset: "mset (order_by_desc field rows) = mset rows"
  by (simp add: order_by_desc_def)

lemma order_by_desc_set: "set (order_by_desc field rows) = set rows"
  by (simp add: order_by_desc_def)

lemma filter_user_User:
  "filter_user user_of (User uid staff) rows = filter (\<lambda>r. user_of r = uid) rows"
  by (simp add: filter_user_def eq_commute)

text \<open>
  C9. Every collection's queryset holds all the rows of its table, newest first: pools,
  bookings and ratings by descending creation time, file uploads by descending upload
  time, whatever the tables hold.
\<close>

theorem listings_newest_first:
  "sorted_wrt (\<lambda>a b. pool_created_at (fst b) \<le> pool_created_at (fst a))
      (pool_get_queryset Avg Pool_objects Rating_objects)
   \<and> mset (map fst (pool_get_queryset Avg Pool_objects Rating_objects)) = mset Pool_objects
   \<and> sorted_wrt (\<lambda>a b. booking_created_at b \<le> booking_created_at a)
      (booking_queryset Booking_objects)
   \<and> mset (booking_queryset Booking_objects) = mset Booking_objects
   \<and> sorted_wrt (\<lambda>a b. rating_created_at b \<le> rating_created_at a)
      (rating_queryset Rating_objects)
   \<and> mset (rating_queryset Rating_objects) = mset Rating_objects
   \<and> sorted_wrt (\<lambda>a b. uploaded_at b \<le> uploaded_at a)
      (file_upload_queryset FileUpload_objects)
   \<and> mset (file_upload_queryset FileUpload_objects) = mset FileUpload_objects"
proof -
  have pools_sorted: "sorted_wrt (\<lambda>a b. pool_created_at (fst b) \<le> pool_created_at (fst a))
      (pool_get_queryset Avg Pool_objects Rating_objects)"
    using order_by_desc_sorted [of "\<lambda>(p, a). pool_created_at p"]
    by (simp add: pool_get_queryset_def case_prod_beta)
  have pools_all: "mset (map fst (pool_get_queryset Avg Pool_objects Rating_objects)) = mset Pool_objects"
  proof -
    let ?annotate = "\<lambda>p. (p, Avg (map rating_value
                             (filter (\<lambda>r. rating_pool r = pool_id p) Rating_objects)))"
    have "mset (map fst (pool_get_queryset Avg Pool_objects Rating_objects)) =
        image_mset fst (mset (map ?annotate Pool_objects))"
      unfolding pool_get_queryset_def mset_map order_by_desc_mset ..
    also have "\<dots> = mset (map (fst \<circ> ?annotate) Pool_objects)"
      by (simp add: multiset.map_comp)
    also have "\<dots> = mset Pool_objects"
      by (simp add: comp_def)
    finally show ?thesis .
  qed
  show ?thesis
    using pools_sorted pools_all
    by (simp add: booking_queryset_def rating_queryset_def file_upload_queryset_def
        order_by_desc_sorted order_by_desc_mset)
qed

section \<open>Properties of the owner-scoped listings\<close>

text \<open>
  C6, as amended. \<^verbatim>\<open>recent_bookings\<close> answers 401 to an anonymous caller. For an
  authenticated caller it takes exactly the bookings whose user is the caller, by
  descending creation time; it returns all of them when the paginator gives no page, and
  the rows of the paginator's page, in the envelope, when it gives one.
\<close>

theorem recent_bookings_owner_scoped:
  "recent_bookings paginate_queryset serializer AnonymousUser Booking_objects =
     Response (JDict [(''detail'', JStr ''User not known'')]) 401
   \<and> (\<exists>rows. mset rows = mset (filter (\<lambda>b. booking_user b = uid) Booking_objects)
        \<and> sorted_wrt (\<lambda>a b. booking_created_at b \<le> booking_created_at a) rows
        \<and> recent_bookings paginate_queryset serializer (User uid staff) Booking_objects =
            (case paginate_queryset rows of
               None \<Rightarrow> Response (JList (map serializer rows)) 200
             | Some (page, info) \<Rightarrow> get_paginated_response info (map serializer page)))"
proof -
  let ?rows = "order_by_desc booking_created_at (filter (\<lambda>b. booking_user b = uid) Booking_objects)"
  have anon: "recent_bookings paginate_queryset serializer AnonymousUser Booking_objects =
     Response (JDict [(''detail'', JStr ''User not known'')]) 401"
    by (simp add: recent_bookings_def HTTP_401_UNAUTHORIZED_def)
  have "mset ?rows = mset (filter (\<lambda>b. booking_user b = uid) Booking_objects)"
    by (rule order_by_desc_mset)
  moreover have "sorted_wrt (\<lambda>a b. booking_created_at b \<le> booking_created_at a) ?rows"
    by (rule order_by_desc_sorted)
  moreover have "recent_bookings paginate_queryset serializer (User uid staff) Booking_objects =
            (case paginate_queryset ?rows of
               None \<Rightarrow> Response (JList (map serializer ?rows)) 200
             | Some (page, info) \<Rightarrow> get_paginated_response info (map serializer page))"
    by (simp add: recent_bookings_def filter_user_User HTTP_200_OK_def split: option.splits)
  ultimately show ?thesis
    using anon by blast
qed

text \<open>
  C6 as stated fails when a page is in force: the bookings of caller 1, newest first,
  are \<^verbatim>\<open>b\<close> and \<^verbatim>\<open>a\<close>, and with one row to the page the response carries
  \<^verbatim>\<open>b\<close> alone.
\<close>

theorem recent_bookings_page_counterexample:
  "recent_bookings first_page_of_one booking_slug_json (User 1 False) example_bookings
     = Response (JDict [(''count'', JInt 2), (''next'', JStr ''?page=2''), (''previous'', JNull),
                        (''results'', JList [JStr ''b''])]) 200
   \<and> map booking_slug_json
         (order_by_desc booking_created_at
            (filter_user booking_user (User 1 False) example_bookings))
     = [JStr ''b'', JStr ''a'']
   \<and> recent_bookings first_page_of_one booking_slug_json (User 1 False) example_bookings
     \<noteq> Response (JList (map booking_slug_json
                (order_by_desc booking_created_at
                   (filter_user booking_user (User 1 False) example_bookings)))) 200"
  by (simp add: recent_bookings_def first_page_of_one_def filter_user_def order_by_desc_def
      get_paginated_response_def HTTP_200_OK_def example_bookings_def booking_slug_json_def)

text \<open>
  C4. When the paginator gives a page, \<^verbatim>\<open>user_ratings\<close> answers with the bare list of
  the page's rows, not with the envelope of count, next, previous and results that
  \<^verbatim>\<open>recent_bookings\<close> builds in the same branch.
\<close>

theorem user_ratings_page_is_bare_list:
  assumes "paginate_queryset
             (order_by_desc rating_created_at
                (filter_user rating_user (User uid staff) Rating_objects))
           = Some (page, info)"
  shows "user_ratings paginate_queryset serializer (User uid staff) Rating_objects =
           Response (JList (map serializer page)) 200
         \<and> user_ratings paginate_queryset serializer (User uid staff) Rating_objects \<noteq>
           get_paginated_response info (map serializer page)"
  using assms by (simp add: user_ratings_def get_paginated_response_def HTTP_200_OK_def)

text \<open>
  Caller 1 has two ratings; with one row to the page the answer is the list of the newest
  one, without count or links.
\<close>

theorem user_ratings_page_is_bare_list_witness:
  "user_ratings first_page_of_one rating_slug_json (User 1 False) example_ratings =
     Response (JList [JStr ''s'']) 200
   \<and> user_ratings first_page_of_one rating_slug_json (User 1 False) example_ratings \<noteq>
     Response (JDict [(''count'', JInt 2), (''next'', JStr ''?page=2''), (''previous'', JNull),
                      (''results'', JList [JStr ''s''])]) 200"
proof -
  have page: "first_page_of_one
      (order_by_desc rating_created_at (filter_user rating_user (User 1 False) example_ratings))
    = Some ([\<lparr>rating_slug = ''s'', rating_user = 1, rating_pool = 2, rating_value = 5,
               rating_created_at = 20\<rparr>],
            \<lparr>page_count = 2, page_next = Some ''?page=2'', page_previous = None\<rparr>)"
    by (simp add: first_page_of_one_def filter_user_def order_by_desc_def example_ratings_def)
  show ?thesis
    using user_ratings_page_is_bare_list
      [where paginate_queryset = first_page_of_one and serializer = rating_slug_json,
       OF page]
    by (simp add: get_paginated_response_def HTTP_200_OK_def rating_slug_json_def)
qed

text \<open>Without a page both listings return the caller's whole sequence.\<close>

lemma user_ratings_without_page:
  assumes "paginate_queryset
             (order_by_desc rating_created_at
                (filter_user rating_user (User uid staff) Rating_objects))
           = None"
  shows "user_ratings paginate_queryset serializer (User uid staff) Rating_objects =
           Response (JList (map serializer
             (order_by_desc rating_created_at
                (filter (\<lambda>r. rating_user r = uid) Rating_objects)))) 200"
  using assms by (simp add: user_ratings_def filter_user_User HTTP_200_OK_def)

section \<open>Properties of creation and registration\<close>

text \<open>
  The Rating view overrides the user of the validated data with the caller; the Booking
  view hands the validated data on as it is.
\<close>

lemma rating_perform_create_user:
  "rating_perform_create user validated_data ''user'' = Some (FUser user)"
  by (simp add: rating_perform_create_def save_def)

lemma booking_perform_create_unchanged:
  "booking_perform_create user validated_data = validated_data"
  by (simp add: booking_perform_create_def save_def)

text \<open>
  C10. Two registration requests with the same body, sent in the same state of the
  repository, have the same outcome (the response or the error, and the state after),
  whatever credentials come with either of them.
\<close>

theorem register_ignores_credentials:
  assumes "data r1 = data r2"
  shows "register super_create for_user handle_exception db r1 =
         register super_create for_user handle_exception db r2"
  using assms by (simp add: register_def dispatch_def)

text \<open>A request without credentials and one with a forged token: both register the user.\<close>

theorem register_ignores_credentials_witness:
  "data \<lparr>credentials = None, data = JDict [(''email'', JStr ''a@b.c'')]\<rparr> =
     data \<lparr>credentials = Some ''Bearer forged'', data = JDict [(''email'', JStr ''a@b.c'')]\<rparr>
   \<and> register example_super_create example_for_user Inl (0::nat)
        \<lparr>credentials = None, data = JDict [(''email'', JStr ''a@b.c'')]\<rparr> =
     register example_super_create example_for_user Inl 0
        \<lparr>credentials = Some ''Bearer forged'', data = JDict [(''email'', JStr ''a@b.c'')]\<rparr>
   \<and> register example_super_create example_for_user Inl (0::nat)
        \<lparr>credentials = Some ''Bearer forged'', data = JDict [(''email'', JStr ''a@b.c'')]\<rparr> =
     (1, Inr (Response (JDict [(''status'', JInt 201),
                               (''message'', JStr ''User registered successfully''),
                               (''user'', JDict [(''id'', JInt 1), (''email'', JStr ''a@b.c'')]),
                               (''refresh'', JStr ''refresh-token''),
                               (''access'', JStr ''access-token'')]) 201))"
  using register_ignores_credentials
    [of "\<lparr>credentials = None, data = JDict [(''email'', JStr ''a@b.c'')]\<rparr>"
        "\<lparr>credentials = Some ''Bearer forged'', data = JDict [(''email'', JStr ''a@b.c'')]\<rparr>"
        example_super_create example_for_user Inl "0::nat"]
  by (simp add: register_def dispatch_def register_create_def example_super_create_def
      example_for_user_def check_permissions_def HTTP_201_CREATED_def)

text \<open>
  The empty list of authentication classes is what makes the credentials irrelevant: the
  same handler behind one authenticator rejects the forged token and serves the request
  without credentials.
\<close>

lemma authenticated_view_reads_credentials:
  "dispatch [token_authentication ''Bearer good''] [AllowAny] Inl
       (register_create example_super_create example_for_user) (0::nat)
       \<lparr>credentials = Some ''Bearer forged'', data = JDict [(''email'', JStr ''a@b.c'')]\<rparr>
     = (0, Inl (OtherException ''AuthenticationFailed''))
   \<and> dispatch [token_authentication ''Bearer good''] [AllowAny] Inl
       (register_create example_super_create example_for_user) (0::nat)
       \<lparr>credentials = None, data = JDict [(''email'', JStr ''a@b.c'')]\<rparr>
     \<noteq> (0, Inl (OtherException ''AuthenticationFailed''))"
  by (simp add: dispatch_def token_authentication_def register_create_def
      example_super_create_def example_for_user_def check_permissions_def)

text \<open>
  When the token step raises after the user has been inserted, the outcome is the
  exception together with the state that holds the new user.
\<close>

lemma register_create_token_failure_keeps_user:
  "register_create example_super_create (\<lambda>db response_data. (db, Inl (OtherException ''DoesNotExist'')))
       (0::nat) AnonymousUser (JDict [(''email'', JStr ''a@b.c'')])
     = (1, Inl (OtherException ''DoesNotExist''))"
  by (simp add: register_create_def example_super_create_def)

end
